theory Spec2Isabelle
  imports Complex_Main
begin

section \<open>Spatial transforms of highdicom (src/highdicom/spatial.py)\<close>

text \<open>
  The module maps between the pixel matrix of an image slice and the three-dimensional
  frame of reference. The embedding follows the Python source function by function.

  Numbers: the source computes with IEEE double precision floats (Python \<open>float\<close>,
  numpy \<open>float64\<close>). They are idealised here as the real numbers: every arithmetic
  operation is exact, there are no infinities, no NaN and no rounding, and the real
  number 0 stands for the float \<open>+0.0\<close> (no input is the negative zero). A statement
  of the form "equal within floating tolerance" is therefore stated and proved as an
  exact equation over \<open>real\<close>; a statement about the exact float result of a
  computation that rounds is outside this model.

  One negative zero changes a result and is modelled: \<open>compute_rotation\<close> passes
  \<open>-rotation[0, 1]\<close> to \<open>numpy.arctan2\<close>, and the negation of the float \<open>0.0\<close> is
  \<open>-0.0\<close>, for which \<open>arctan2\<close> returns \<open>-\<pi>\<close> on the negative x-axis where it
  returns \<open>\<pi>\<close> for \<open>0.0\<close>.

  Sequences (\<open>Sequence[float]\<close>) are lists, and every indexed read of the source is a
  read that fails with \<open>IndexError\<close> past the end of the list. The arrays the module
  builds have a fixed shape (3 x 3 and 4 x 4) and are tuples of rows.
\<close>

subsection \<open>Errors\<close>

text \<open>
  The exceptions the module can raise. \<open>compute_rotation\<close> raises \<open>ValueError\<close> with one
  of two messages (the orientation is not a simple planar rotation; the image coordinate
  system is flipped); numpy raises \<open>ValueError\<close> when the shapes of its arguments do not
  fit, and \<open>numpy.linalg.LinAlgError\<close> when \<open>numpy.linalg.inv\<close> meets a singular matrix.
\<close>

datatype value_error = NotPlanarRotation | FlippedOrientation | IncompatibleShape

datatype error = ValueError value_error | IndexError | LinAlgError

definition bind_err :: "error + 'a \<Rightarrow> ('a \<Rightarrow> error + 'b) \<Rightarrow> error + 'b" where
  "bind_err m f = (case m of Inl e \<Rightarrow> Inl e | Inr x \<Rightarrow> f x)"

definition getitem :: "real list \<Rightarrow> nat \<Rightarrow> error + real" where
  "getitem xs i = (if i < length xs then Inr (xs ! i) else Inl IndexError)"

subsection \<open>Vectors and matrices of fixed shape\<close>

type_synonym vec3 = "real \<times> real \<times> real"
type_synonym vec4 = "real \<times> real \<times> real \<times> real"
type_synonym mat3 = "vec3 \<times> vec3 \<times> vec3"
type_synonym mat4 = "vec4 \<times> vec4 \<times> vec4 \<times> vec4"

fun as_vec3 :: "real list \<Rightarrow> vec3 option" where
  "as_vec3 [x, y, z] = Some (x, y, z)"
| "as_vec3 _ = None"

text \<open>\<open>numpy.cross\<close> of two 3-vectors.\<close>

fun cross :: "vec3 \<Rightarrow> vec3 \<Rightarrow> vec3" where
  "cross (a0, a1, a2) (b0, b1, b2) =
     (a1 * b2 - a2 * b1, a2 * b0 - a0 * b2, a0 * b1 - a1 * b0)"

text \<open>\<open>numpy.column_stack\<close> of three 3-vectors: the vectors are the columns.\<close>

fun column_stack3 :: "vec3 \<Rightarrow> vec3 \<Rightarrow> vec3 \<Rightarrow> mat3" where
  "column_stack3 (a0, a1, a2) (b0, b1, b2) (c0, c1, c2) =
     ((a0, b0, c0), (a1, b1, c1), (a2, b2, c2))"

text \<open>Entry \<open>[i, j]\<close> of a 3 x 3 array, for the constant indices the source uses.\<close>

fun entry3 :: "mat3 \<Rightarrow> nat \<Rightarrow> nat \<Rightarrow> real" where
  "entry3 ((m00, m01, m02), (m10, m11, m12), (m20, m21, m22)) i j =
     (if i = 0 then (if j = 0 then m00 else if j = 1 then m01 else m02)
      else if i = 1 then (if j = 0 then m10 else if j = 1 then m11 else m12)
      else (if j = 0 then m20 else if j = 1 then m21 else m22))"

text \<open>The in-place update \<open>rotation[:, j] *= s\<close>.\<close>

fun scale_column :: "nat \<Rightarrow> real \<Rightarrow> mat3 \<Rightarrow> mat3" where
  "scale_column j s ((m00, m01, m02), (m10, m11, m12), (m20, m21, m22)) =
     (if j = 0 then ((m00 * s, m01, m02), (m10 * s, m11, m12), (m20 * s, m21, m22))
      else if j = 1 then ((m00, m01 * s, m02), (m10, m11 * s, m12), (m20, m21 * s, m22))
      else ((m00, m01, m02 * s), (m10, m11, m12 * s), (m20, m21, m22 * s)))"

text \<open>\<open>numpy.dot\<close> of a 3 x 3 array and a 3-vector, and of a 4 x 4 array and a 4-vector.\<close>

fun dot3 :: "mat3 \<Rightarrow> vec3 \<Rightarrow> vec3" where
  "dot3 ((m00, m01, m02), (m10, m11, m12), (m20, m21, m22)) (x, y, z) =
     (m00 * x + m01 * y + m02 * z,
      m10 * x + m11 * y + m12 * z,
      m20 * x + m21 * y + m22 * z)"

fun dot4 :: "mat4 \<Rightarrow> vec4 \<Rightarrow> vec4" where
  "dot4 ((m00, m01, m02, m03), (m10, m11, m12, m13),
         (m20, m21, m22, m23), (m30, m31, m32, m33)) (x, y, z, w) =
     (m00 * x + m01 * y + m02 * z + m03 * w,
      m10 * x + m11 * y + m12 * z + m13 * w,
      m20 * x + m21 * y + m22 * z + m23 * w,
      m30 * x + m31 * y + m32 * z + m33 * w)"

text \<open>
  The 4 x 4 array \<open>row_stack([column_stack([rotation, translation]), [0, 0, 0, 1]])\<close>.
\<close>

fun affine_stack :: "mat3 \<Rightarrow> vec3 \<Rightarrow> mat4" where
  "affine_stack ((m00, m01, m02), (m10, m11, m12), (m20, m21, m22)) (t0, t1, t2) =
     ((m00, m01, m02, t0), (m10, m11, m12, t1), (m20, m21, m22, t2), (0, 0, 0, 1))"

fun neg3 :: "vec3 \<Rightarrow> vec3" where
  "neg3 (x, y, z) = (- x, - y, - z)"

subsection \<open>The numpy functions on numbers\<close>

text \<open>
  \<open>numpy.linalg.inv\<close> on a 3 x 3 array, in exact arithmetic: it raises \<open>LinAlgError\<close>
  when the matrix is singular and returns the inverse (the adjugate over the
  determinant) otherwise.
\<close>

fun det3 :: "mat3 \<Rightarrow> real" where
  "det3 ((a, b, c), (d, e, f), (g, h, i)) =
     a * (e * i - f * h) - b * (d * i - f * g) + c * (d * h - e * g)"

fun adjugate3 :: "mat3 \<Rightarrow> mat3" where
  "adjugate3 ((a, b, c), (d, e, f), (g, h, i)) =
     ((e * i - f * h, c * h - b * i, b * f - c * e),
      (f * g - d * i, a * i - c * g, c * d - a * f),
      (d * h - e * g, b * g - a * h, a * e - b * d))"

fun scale3 :: "real \<Rightarrow> mat3 \<Rightarrow> mat3" where
  "scale3 k ((a, b, c), (d, e, f), (g, h, i)) =
     ((k * a, k * b, k * c), (k * d, k * e, k * f), (k * g, k * h, k * i))"

definition linalg_inv :: "mat3 \<Rightarrow> error + mat3" where
  "linalg_inv m =
     (if det3 m = 0 then Inl LinAlgError else Inr (scale3 (1 / det3 m) (adjugate3 m)))"

text \<open>
  The first argument of \<open>numpy.arctan2\<close> as the function sees it: a real number
  (\<open>Finite 0\<close> is the float \<open>+0.0\<close>) or the negative zero \<open>-0.0\<close>. \<open>fneg\<close> is the
  float negation of a float that is not itself the negative zero: \<open>-(0.0) = -0.0\<close>.
\<close>

datatype fval = NegZero | Finite real

fun fval_real :: "fval \<Rightarrow> real" where
  "fval_real NegZero = 0"
| "fval_real (Finite y) = y"

definition fneg :: "real \<Rightarrow> fval" where
  "fneg x = (if x = 0 then NegZero else Finite (- x))"

text \<open>
  \<open>numpy.arctan2 y x\<close>: the angle of the point \<open>(x, y)\<close>. For a real \<open>y\<close> it lies
  in \<open>(-\<pi>, \<pi>]\<close>, with \<open>\<pi>\<close> on the negative x-axis and 0 at the origin. For
  \<open>y = -0.0\<close> it is \<open>-\<pi>\<close> when \<open>x < 0\<close> and \<open>-0.0\<close> otherwise (a result \<open>-0.0\<close>
  is the real number 0 here: it compares equal to 0). \<open>numpy.degrees\<close> converts
  radians to degrees.
\<close>

fun arctan2 :: "fval \<Rightarrow> real \<Rightarrow> real" where
  "arctan2 NegZero x = (if x < 0 then - pi else 0)"
| "arctan2 (Finite y) x =
     (if 0 < x then arctan (y / x)
      else if x < 0 then (if 0 \<le> y then arctan (y / x) + pi else arctan (y / x) - pi)
      else if 0 < y then pi / 2
      else if y < 0 then - (pi / 2)
      else 0)"

definition degrees :: "real \<Rightarrow> real" where
  "degrees x = x * (180 / pi)"

subsection \<open>The functions of the module\<close>

text \<open>
  \<open>create_rotation_matrix\<close>: the row cosines are \<open>image_orientation[:3]\<close>, the column
  cosines \<open>image_orientation[3:]\<close>; the result has the columns row cosines, column
  cosines and their cross product. The slices never fail; numpy fails with a
  \<open>ValueError\<close> (in \<open>cross\<close> or in \<open>column_stack\<close>) unless both are 3-vectors.
\<close>

definition create_rotation_matrix :: "real list \<Rightarrow> error + mat3" where
  "create_rotation_matrix image_orientation =
     (case (as_vec3 (take 3 image_orientation), as_vec3 (drop 3 image_orientation)) of
        (Some row_cosines, Some column_cosines) \<Rightarrow>
          Inr (column_stack3 row_cosines column_cosines (cross row_cosines column_cosines))
      | _ \<Rightarrow> Inl (ValueError IncompatibleShape))"

definition compute_rotation :: "real list \<Rightarrow> bool \<Rightarrow> error + real" where
  "compute_rotation image_orientation in_degrees =
     bind_err (getitem image_orientation 2) (\<lambda>o2.
     if o2 \<noteq> 0 then Inl (ValueError NotPlanarRotation)
     else bind_err (getitem image_orientation 5) (\<lambda>o5.
     if o5 \<noteq> 0 then Inl (ValueError NotPlanarRotation)
     else bind_err (create_rotation_matrix image_orientation) (\<lambda>rotation.
     if entry3 rotation 2 2 < 0 then Inl (ValueError FlippedOrientation)
     else (let angle = arctan2 (fneg (entry3 rotation 0 1)) (entry3 rotation 0 0)
           in if in_degrees then Inr (degrees angle) else Inr angle))))"

definition build_transform :: "real list \<Rightarrow> real list \<Rightarrow> real list \<Rightarrow> error + mat4" where
  "build_transform image_position image_orientation pixel_spacing =
     bind_err (getitem image_position 0) (\<lambda>x_offset.
     bind_err (getitem image_position 1) (\<lambda>y_offset.
     bind_err (getitem image_position 2) (\<lambda>z_offset.
     let translation = (x_offset, y_offset, z_offset) in
     bind_err (create_rotation_matrix image_orientation) (\<lambda>rotation.
     bind_err (getitem pixel_spacing 0) (\<lambda>column_spacing.
     bind_err (getitem pixel_spacing 1) (\<lambda>row_spacing.
     let rotation = scale_column 0 row_spacing rotation;
         rotation = scale_column 1 column_spacing rotation
     in Inr (affine_stack rotation translation)))))))"

definition build_inverse_transform ::
    "real list \<Rightarrow> real list \<Rightarrow> real list \<Rightarrow> real \<Rightarrow> error + mat4" where
  "build_inverse_transform image_position image_orientation pixel_spacing
       spacing_between_slices =
     bind_err (getitem image_position 0) (\<lambda>x_offset.
     bind_err (getitem image_position 1) (\<lambda>y_offset.
     bind_err (getitem image_position 2) (\<lambda>z_offset.
     let translation = (x_offset, y_offset, z_offset) in
     bind_err (create_rotation_matrix image_orientation) (\<lambda>rotation.
     bind_err (getitem pixel_spacing 0) (\<lambda>column_spacing.
     bind_err (getitem pixel_spacing 1) (\<lambda>row_spacing.
     let rotation = scale_column 0 row_spacing rotation;
         rotation = scale_column 1 column_spacing rotation;
         rotation = scale_column 2 spacing_between_slices rotation
     in bind_err (linalg_inv rotation) (\<lambda>inv_rotation.
        Inr (affine_stack inv_rotation (neg3 (dot3 inv_rotation translation))))))))))"

text \<open>
  \<open>apply_transform\<close> reads \<open>coordinate[0]\<close> and \<open>coordinate[1]\<close> and nothing else of
  the coordinate; \<open>apply_inverse_transform\<close> reads \<open>coordinate[0]\<close>, \<open>coordinate[1]\<close>
  and \<open>coordinate[2]\<close>. The result, a tuple of three floats, is the list of its
  components, so that it can be passed on as a coordinate.
\<close>

fun first3 :: "vec4 \<Rightarrow> real list" where
  "first3 (x, y, z, w) = [x, y, z]"

definition apply_transform :: "real list \<Rightarrow> mat4 \<Rightarrow> error + real list" where
  "apply_transform coordinate affine =
     bind_err (getitem coordinate 0) (\<lambda>column_offset.
     bind_err (getitem coordinate 1) (\<lambda>row_offset.
     let pixel_matrix_coordinate = (column_offset, row_offset, 0, 1);
         physical_coordinate = dot4 affine pixel_matrix_coordinate
     in Inr (first3 physical_coordinate)))"

definition apply_inverse_transform :: "real list \<Rightarrow> mat4 \<Rightarrow> error + real list" where
  "apply_inverse_transform coordinate affine =
     bind_err (getitem coordinate 0) (\<lambda>x.
     bind_err (getitem coordinate 1) (\<lambda>y.
     bind_err (getitem coordinate 2) (\<lambda>z.
     let physical_coordinate = (x, y, z, 1);
         pixel_matrix_coordinate = dot4 affine physical_coordinate
     in Inr (first3 pixel_matrix_coordinate))))"

definition map_pixel_into_coordinate_system ::
    "real list \<Rightarrow> real list \<Rightarrow> real list \<Rightarrow> real list \<Rightarrow> error + real list" where
  "map_pixel_into_coordinate_system coordinate image_position image_orientation
       pixel_spacing =
     bind_err (build_transform image_position image_orientation pixel_spacing)
       (\<lambda>affine. apply_transform coordinate affine)"

definition map_coordinate_into_pixel_matrix ::
    "real list \<Rightarrow> real list \<Rightarrow> real list \<Rightarrow> real list \<Rightarrow> real \<Rightarrow> error + real list" where
  "map_coordinate_into_pixel_matrix coordinate image_position image_orientation
       pixel_spacing spacing_between_slices =
     bind_err (build_inverse_transform image_position image_orientation pixel_spacing
                 spacing_between_slices)
       (\<lambda>affine. apply_inverse_transform coordinate affine)"

subsection \<open>Matrix products and the mapper as the specification words it\<close>

text \<open>
  The product of two arrays of the same fixed shape (\<open>numpy.dot\<close> on two matrices) and
  the identity matrices, for statements about a transform and its inverse.
\<close>

fun transpose3 :: "mat3 \<Rightarrow> mat3" where
  "transpose3 ((a, b, c), (d, e, f), (g, h, i)) = ((a, d, g), (b, e, h), (c, f, i))"

definition mat3_mul :: "mat3 \<Rightarrow> mat3 \<Rightarrow> mat3" where
  "mat3_mul m n =
     (case transpose3 n of (c0, c1, c2) \<Rightarrow> transpose3 (dot3 m c0, dot3 m c1, dot3 m c2))"

definition identity3 :: mat3 where
  "identity3 = ((1, 0, 0), (0, 1, 0), (0, 0, 1))"

fun transpose4 :: "mat4 \<Rightarrow> mat4" where
  "transpose4 ((m00, m01, m02, m03), (m10, m11, m12, m13),
               (m20, m21, m22, m23), (m30, m31, m32, m33)) =
     ((m00, m10, m20, m30), (m01, m11, m21, m31),
      (m02, m12, m22, m32), (m03, m13, m23, m33))"

definition mat4_mul :: "mat4 \<Rightarrow> mat4 \<Rightarrow> mat4" where
  "mat4_mul m n =
     (case transpose4 n of
        (c0, c1, c2, c3) \<Rightarrow> transpose4 (dot4 m c0, dot4 m c1, dot4 m c2, dot4 m c3))"

definition identity4 :: mat4 where
  "identity4 = ((1, 0, 0, 0), (0, 1, 0, 0), (0, 0, 1, 0), (0, 0, 0, 1))"

text \<open>
  The single \<open>apply\<close> operation of the specification, in the specification's words: a
  2-vector is padded with \<open>z = 0\<close> and \<open>w = 1\<close>, a 3-vector with \<open>w = 1\<close>; the padded
  point is multiplied by the matrix and the first three components are returned. The
  specification says nothing about a point of another length.
\<close>

fun spec_apply :: "real list \<Rightarrow> mat4 \<Rightarrow> real list option" where
  "spec_apply [x, y] matrix = Some (first3 (dot4 matrix (x, y, 0, 1)))"
| "spec_apply [x, y, z] matrix = Some (first3 (dot4 matrix (x, y, z, 1)))"
| "spec_apply _ matrix = None"

section \<open>Basic facts\<close>

lemma bind_err_Inr [simp]: "bind_err (Inr x) f = f x"
  by (simp add: bind_err_def)

lemma bind_err_Inl [simp]: "bind_err (Inl e) f = Inl e"
  by (simp add: bind_err_def)

lemma create_rotation_matrix_6:
  "create_rotation_matrix [r0, r1, r2, c0, c1, c2] =
     Inr ((r0, c0, r1 * c2 - r2 * c1),
          (r1, c1, r2 * c0 - r0 * c2),
          (r2, c2, r0 * c1 - r1 * c0))"
  by (simp add: create_rotation_matrix_def)

lemma build_transform_explicit:
  "build_transform [px, py, pz] [r0, r1, r2, c0, c1, c2] [s0, s1] =
     Inr ((r0 * s1, c0 * s0, r1 * c2 - r2 * c1, px),
          (r1 * s1, c1 * s0, r2 * c0 - r0 * c2, py),
          (r2 * s1, c2 * s0, r0 * c1 - r1 * c0, pz),
          (0, 0, 0, 1))"
  by (simp add: build_transform_def getitem_def create_rotation_matrix_6)

lemma bind_err_InrD: "bind_err m f = Inr y \<Longrightarrow> \<exists>x. m = Inr x \<and> f x = Inr y"
  by (cases m) auto

lemma getitem_Inr: "getitem xs i = Inr x \<longleftrightarrow> i < length xs \<and> x = xs ! i"
  by (auto simp: getitem_def)

subsection \<open>Shapes\<close>

lemma as_vec3_Some: "as_vec3 xs = Some v \<Longrightarrow> length xs = 3"
  by (erule as_vec3.elims) auto

lemma create_rotation_matrix_length:
  assumes "create_rotation_matrix ori = Inr R"
  shows "length ori = 6"
proof -
  from assms obtain u v where "as_vec3 (take 3 ori) = Some u" "as_vec3 (drop 3 ori) = Some v"
    by (auto simp: create_rotation_matrix_def split: option.splits)
  then have "length (drop 3 ori) = 3"
    using as_vec3_Some by blast
  then show ?thesis by simp
qed

lemma length6E:
  assumes "length (xs :: real list) = 6"
  obtains a b c d e f where "xs = [a, b, c, d, e, f]"
proof -
  have "xs = [xs ! 0, xs ! 1, xs ! 2, xs ! 3, xs ! 4, xs ! 5]"
    using assms by (auto simp: list_eq_iff_nth_eq nth_Cons' less_Suc_eq numeral_eq_Suc)
  then show ?thesis
    using that by blast
qed

lemma build_inverse_transform_shape:
  assumes "build_inverse_transform pos ori sp ss = Inr G"
  shows "3 \<le> length pos \<and> length ori = 6 \<and> 2 \<le> length sp"
proof -
  from assms obtain R where
    "2 < length pos" "create_rotation_matrix ori = Inr R" "1 < length sp"
    unfolding build_inverse_transform_def
    by (auto simp: getitem_Inr Let_def dest!: bind_err_InrD)
  then show ?thesis
    using create_rotation_matrix_length by auto
qed

subsection \<open>The builders on vectors of the right shape\<close>

lemma build_transform_nth:
  assumes "3 \<le> length pos" "2 \<le> length sp"
  shows "build_transform pos [r0, r1, r2, c0, c1, c2] sp =
     Inr ((r0 * sp ! 1, c0 * sp ! 0, r1 * c2 - r2 * c1, pos ! 0),
          (r1 * sp ! 1, c1 * sp ! 0, r2 * c0 - r0 * c2, pos ! 1),
          (r2 * sp ! 1, c2 * sp ! 0, r0 * c1 - r1 * c0, pos ! 2),
          (0, 0, 0, 1))"
proof -
  have g: "getitem pos 0 = Inr (pos ! 0)" "getitem pos 1 = Inr (pos ! 1)"
    "getitem pos 2 = Inr (pos ! 2)" "getitem sp 0 = Inr (sp ! 0)" "getitem sp 1 = Inr (sp ! 1)"
    using assms by (auto simp: getitem_def)
  show ?thesis
    using g by (simp add: build_transform_def create_rotation_matrix_6)
qed

lemma build_inverse_transform_nth:
  assumes "3 \<le> length pos" "2 \<le> length sp"
  shows "build_inverse_transform pos [r0, r1, r2, c0, c1, c2] sp ss =
     bind_err (linalg_inv ((r0 * sp ! 1, c0 * sp ! 0, (r1 * c2 - r2 * c1) * ss),
                           (r1 * sp ! 1, c1 * sp ! 0, (r2 * c0 - r0 * c2) * ss),
                           (r2 * sp ! 1, c2 * sp ! 0, (r0 * c1 - r1 * c0) * ss)))
       (\<lambda>inv_rotation.
          Inr (affine_stack inv_rotation (neg3 (dot3 inv_rotation (pos ! 0, pos ! 1, pos ! 2)))))"
proof -
  have g: "getitem pos 0 = Inr (pos ! 0)" "getitem pos 1 = Inr (pos ! 1)"
    "getitem pos 2 = Inr (pos ! 2)" "getitem sp 0 = Inr (sp ! 0)" "getitem sp 1 = Inr (sp ! 1)"
    using assms by (auto simp: getitem_def)
  show ?thesis
    using g by (simp add: build_inverse_transform_def create_rotation_matrix_6)
qed

subsection \<open>The inverse of a 3 x 3 matrix\<close>

lemma adjugate3_left:
  "dot3 (adjugate3 m) (dot3 m v) =
     (det3 m * fst v, det3 m * fst (snd v), det3 m * snd (snd v))"
proof -
  obtain a b c d e f g h i where m: "m = ((a, b, c), (d, e, f), (g, h, i))"
    by (metis prod_cases3)
  obtain x y z where v: "v = (x, y, z)"
    by (metis prod_cases3)
  show ?thesis
    unfolding m v by (simp add: algebra_simps)
qed

lemma dot3_scale3:
  "dot3 (scale3 k m) v =
     (k * fst (dot3 m v), k * fst (snd (dot3 m v)), k * snd (snd (dot3 m v)))"
proof -
  obtain a b c d e f g h i where m: "m = ((a, b, c), (d, e, f), (g, h, i))"
    by (metis prod_cases3)
  obtain x y z where v: "v = (x, y, z)"
    by (metis prod_cases3)
  show ?thesis
    unfolding m v by (simp add: algebra_simps)
qed

lemma linalg_inv_left:
  assumes "linalg_inv m = Inr n"
  shows "dot3 n (dot3 m v) = v"
proof -
  have d: "det3 m \<noteq> 0" and n: "n = scale3 (1 / det3 m) (adjugate3 m)"
    using assms by (auto simp: linalg_inv_def split: if_splits)
  show ?thesis
    unfolding n dot3_scale3 adjugate3_left using d by simp
qed

subsection \<open>Applying an affine matrix\<close>

lemma apply_transform_affine_stack:
  "apply_transform (c # r # rest) (affine_stack m (t0, t1, t2)) =
     Inr [fst (dot3 m (c, r, 0)) + t0,
          fst (snd (dot3 m (c, r, 0))) + t1,
          snd (snd (dot3 m (c, r, 0))) + t2]"
  by (cases m rule: prod_cases3; cases "fst m"; cases "fst (snd m)"; cases "snd (snd m)";
      simp add: apply_transform_def getitem_def)

lemma apply_inverse_affine_stack:
  assumes "3 \<le> length q"
  shows "apply_inverse_transform q (affine_stack n t) =
     Inr [fst (dot3 n (q ! 0, q ! 1, q ! 2)) + fst t,
          fst (snd (dot3 n (q ! 0, q ! 1, q ! 2))) + fst (snd t),
          snd (snd (dot3 n (q ! 0, q ! 1, q ! 2))) + snd (snd t)]"
proof -
  obtain a b c d e f g h i where n: "n = ((a, b, c), (d, e, f), (g, h, i))"
    by (metis prod_cases3)
  obtain t0 t1 t2 where t: "t = (t0, t1, t2)"
    by (metis prod_cases3)
  have g: "getitem q 0 = Inr (q ! 0)" "getitem q 1 = Inr (q ! 1)" "getitem q 2 = Inr (q ! 2)"
    using assms by (auto simp: getitem_def)
  show ?thesis
    unfolding n t using g by (simp add: apply_inverse_transform_def)
qed

lemma dot3_neg3:
  "fst (dot3 n v) + fst (neg3 (dot3 n v)) = 0"
  "fst (snd (dot3 n v)) + fst (snd (neg3 (dot3 n v))) = 0"
  "snd (snd (dot3 n v)) + snd (snd (neg3 (dot3 n v))) = 0"
  by (cases "dot3 n v"; simp)+

lemma dot3_add:
  "dot3 n (x + t0, y + t1, z + t2) =
     (fst (dot3 n (x, y, z)) + fst (dot3 n (t0, t1, t2)),
      fst (snd (dot3 n (x, y, z))) + fst (snd (dot3 n (t0, t1, t2))),
      snd (snd (dot3 n (x, y, z))) + snd (snd (dot3 n (t0, t1, t2))))"
  by (cases n rule: prod_cases3; cases "fst n"; cases "fst (snd n)"; cases "snd (snd n)";
      simp add: algebra_simps)

lemma dot3_add_neg:
  "fst (dot3 n u) + fst (dot3 n t) + fst (neg3 (dot3 n t)) = fst (dot3 n u)"
  "fst (snd (dot3 n u)) + fst (snd (dot3 n t)) + fst (snd (neg3 (dot3 n t))) =
     fst (snd (dot3 n u))"
  "snd (snd (dot3 n u)) + snd (snd (dot3 n t)) + snd (snd (neg3 (dot3 n t))) =
     snd (snd (dot3 n u))"
  by (cases "dot3 n t"; simp)+

lemma scale_column2_plane:
  "dot3 (scale_column 2 ss m) (c, r, 0) = dot3 m (c, r, 0)"
  by (cases m rule: prod_cases3; cases "fst m"; cases "fst (snd m)"; cases "snd (snd m)"; simp)

subsection \<open>The rotation basis and the angle\<close>

lemma create_rotation_matrix_Inr:
  assumes "create_rotation_matrix ori = Inr R"
  shows "ori = [ori ! 0, ori ! 1, ori ! 2, ori ! 3, ori ! 4, ori ! 5] \<and>
         R = ((ori ! 0, ori ! 3, ori ! 1 * ori ! 5 - ori ! 2 * ori ! 4),
              (ori ! 1, ori ! 4, ori ! 2 * ori ! 3 - ori ! 0 * ori ! 5),
              (ori ! 2, ori ! 5, ori ! 0 * ori ! 4 - ori ! 1 * ori ! 3))"
proof -
  have "length ori = 6"
    using assms by (rule create_rotation_matrix_length)
  then obtain r0 r1 r2 c0 c1 c2 where ori: "ori = [r0, r1, r2, c0, c1, c2]"
    by (auto elim: length6E)
  show ?thesis
    using assms unfolding ori create_rotation_matrix_6 by auto
qed

lemma compute_rotation_6:
  "compute_rotation [r0, r1, r2, c0, c1, c2] in_degrees =
     (if r2 \<noteq> 0 \<or> c2 \<noteq> 0 then Inl (ValueError NotPlanarRotation)
      else if r0 * c1 - r1 * c0 < 0 then Inl (ValueError FlippedOrientation)
      else if in_degrees then Inr (degrees (arctan2 (fneg c0) r0))
      else Inr (arctan2 (fneg c0) r0))"
  by (simp add: compute_rotation_def getitem_def create_rotation_matrix_6)

lemma compute_rotation_basis:
  assumes "create_rotation_matrix ori = Inr R"
  shows "compute_rotation ori in_degrees =
     (if ori ! 2 \<noteq> 0 \<or> ori ! 5 \<noteq> 0 then Inl (ValueError NotPlanarRotation)
      else if entry3 R 2 2 < 0 then Inl (ValueError FlippedOrientation)
      else if in_degrees then Inr (degrees (arctan2 (fneg (entry3 R 0 1)) (entry3 R 0 0)))
      else Inr (arctan2 (fneg (entry3 R 0 1)) (entry3 R 0 0)))"
proof -
  have "length ori = 6"
    using assms by (rule create_rotation_matrix_length)
  then obtain r0 r1 r2 c0 c1 c2 where ori: "ori = [r0, r1, r2, c0, c1, c2]"
    by (auto elim: length6E)
  have R: "R = ((r0, c0, r1 * c2 - r2 * c1), (r1, c1, r2 * c0 - r0 * c2),
                (r2, c2, r0 * c1 - r1 * c0))"
    using assms unfolding ori create_rotation_matrix_6 by simp
  show ?thesis
    unfolding ori R compute_rotation_6 by simp
qed

subsection \<open>The angle function\<close>

text \<open>
  \<open>arctan2\<close> is the angle of the point: the point is its distance from the origin
  times the cosine and the sine of the angle, and for a real \<open>y\<close> the angle is the
  principal argument \<open>Arg\<close> of the complex number \<open>x + i y\<close>.
\<close>

lemma sqrt_sum_squares_factor:
  assumes "x \<noteq> 0"
  shows "sqrt (x\<^sup>2 + y\<^sup>2) = \<bar>x\<bar> * sqrt (1 + (y / x)\<^sup>2)"
proof -
  have "x\<^sup>2 + y\<^sup>2 = x\<^sup>2 * (1 + (y / x)\<^sup>2)"
    using assms by (simp add: field_simps power2_eq_square)
  then show ?thesis
    by (simp add: real_sqrt_mult)
qed

lemma sqrt_one_plus_pos: "0 < sqrt (1 + (t::real)\<^sup>2)"
  by (simp add: add_pos_nonneg)

lemma polar_arctan:
  assumes "x \<noteq> 0"
  shows "sqrt (x\<^sup>2 + y\<^sup>2) * cos (arctan (y / x)) = \<bar>x\<bar>"
    and "sqrt (x\<^sup>2 + y\<^sup>2) * sin (arctan (y / x)) = \<bar>x\<bar> * (y / x)"
proof -
  have s: "sqrt (1 + (y / x)\<^sup>2) \<noteq> 0"
    using sqrt_one_plus_pos [of "y / x"] by simp
  show "sqrt (x\<^sup>2 + y\<^sup>2) * cos (arctan (y / x)) = \<bar>x\<bar>"
    unfolding sqrt_sum_squares_factor [OF assms] cos_arctan using s by simp
  show "sqrt (x\<^sup>2 + y\<^sup>2) * sin (arctan (y / x)) = \<bar>x\<bar> * (y / x)"
    unfolding sqrt_sum_squares_factor [OF assms] sin_arctan using s by simp
qed

lemma arctan2_cos: "sqrt (x\<^sup>2 + (fval_real y)\<^sup>2) * cos (arctan2 y x) = x"
proof (cases y)
  case NegZero
  then show ?thesis by simp
next
  case (Finite v)
  show ?thesis
  proof (cases "x = 0")
    case True
    then show ?thesis using Finite by simp
  next
    case False
    then show ?thesis
      using Finite polar_arctan(1) [OF False, of v] by (simp add: algebra_simps)
  qed
qed

lemma arctan2_sin: "sqrt (x\<^sup>2 + (fval_real y)\<^sup>2) * sin (arctan2 y x) = fval_real y"
proof (cases y)
  case NegZero
  then show ?thesis by simp
next
  case (Finite v)
  show ?thesis
  proof (cases "x = 0")
    case True
    then show ?thesis using Finite by simp
  next
    case False
    then show ?thesis
      using Finite polar_arctan(2) [OF False, of v] by (simp add: algebra_simps)
  qed
qed

lemma arctan2_range: "- pi \<le> arctan2 y x \<and> arctan2 y x \<le> pi"
proof (cases y)
  case NegZero
  then show ?thesis by simp
next
  case (Finite v)
  have b: "- (pi / 2) < arctan (v / x)" "arctan (v / x) < pi / 2"
    by (rule arctan_lbound, rule arctan_ubound)
  have neg: "v / x \<le> 0 \<Longrightarrow> arctan (v / x) \<le> 0" and pos: "0 < v / x \<Longrightarrow> 0 < arctan (v / x)"
    by simp_all
  show ?thesis
  proof (cases "x < 0")
    case True
    show ?thesis
    proof (cases "0 \<le> v")
      case True
      with \<open>x < 0\<close> have "v / x \<le> 0" by (simp add: divide_nonneg_neg)
      with neg b Finite True \<open>x < 0\<close> show ?thesis by simp
    next
      case False
      with \<open>x < 0\<close> have "0 < v / x" by (simp add: divide_neg_neg)
      with pos b Finite False \<open>x < 0\<close> show ?thesis by simp
    qed
  next
    case False
    then show ?thesis using Finite b by auto
  qed
qed

lemma arctan2_Finite_lower: "- pi < arctan2 (Finite v) x"
proof -
  have b: "- (pi / 2) < arctan (v / x)" "arctan (v / x) < pi / 2"
    by (rule arctan_lbound, rule arctan_ubound)
  show ?thesis
  proof (cases "x < 0 \<and> \<not> 0 \<le> v")
    case True
    then have "0 < v / x" by (simp add: divide_neg_neg)
    then have "0 < arctan (v / x)" by simp
    with True show ?thesis by simp
  next
    case False
    then show ?thesis using b by auto
  qed
qed

lemma arctan2_Finite_Arg: "arctan2 (Finite v) x = Arg (Complex x v)"
proof (cases "x = 0 \<and> v = 0")
  case True
  then have "Complex x v = 0"
    by (simp add: complex_eq_iff)
  with True show ?thesis
    by (simp add: Arg_zero)
next
  case False
  define rho where "rho = sqrt (x\<^sup>2 + v\<^sup>2)"
  define th where "th = arctan2 (Finite v) x"
  have "0 < x\<^sup>2 + v\<^sup>2"
    using False by (metis sum_power2_gt_zero_iff)
  then have rho: "0 < rho"
    by (simp add: rho_def)
  have c: "rho * cos th = x" and s: "rho * sin th = v"
    using arctan2_cos [of x "Finite v"] arctan2_sin [of x "Finite v"]
    by (simp_all add: rho_def th_def)
  have m: "cmod (Complex x v) = rho"
    by (simp add: cmod_def rho_def)
  have "sgn (Complex x v) = cis th"
    using rho c s by (simp add: complex_eq_iff m field_simps)
  moreover have "- pi < th"
    unfolding th_def by (rule arctan2_Finite_lower)
  moreover have "th \<le> pi"
    unfolding th_def using arctan2_range by blast
  ultimately have "Arg (Complex x v) = th"
    by (rule cis_Arg_unique)
  then show ?thesis
    by (simp add: th_def)
qed

lemma arctan2_fneg:
  "arctan2 (fneg y) x = (if y = 0 \<and> x < 0 then - pi else Arg (Complex x (- y)))"
proof (cases "y = 0")
  case True
  have "Arg (Complex x 0) = 0" if "0 \<le> x"
    using arctan2_Finite_Arg [of 0 x] that by (simp split: if_splits)
  with True show ?thesis
    by (simp add: fneg_def)
next
  case False
  then show ?thesis
    by (simp add: fneg_def arctan2_Finite_Arg del: arctan2.simps)
qed

lemma arctan2_values:
  "arctan2 (fneg 0) 1 = 0" "arctan2 (fneg (- 1)) 0 = pi / 2"
  "arctan2 (fneg 1) 1 = - (pi / 4)" "arctan2 (fneg 0) (- 1) = - pi"
  by (simp_all add: fneg_def arctan_minus arctan_one)

subsection \<open>The determinant of the scaled basis\<close>

lemma det3_scaled_block:
  "det3 ((r0 * s1, c0 * s0, (r1 * c2 - r2 * c1) * ss),
         (r1 * s1, c1 * s0, (r2 * c0 - r0 * c2) * ss),
         (r2 * s1, c2 * s0, (r0 * c1 - r1 * c0) * ss)) =
   s1 * s0 * ss * ((r1 * c2 - r2 * c1)\<^sup>2 + (r2 * c0 - r0 * c2)\<^sup>2 + (r0 * c1 - r1 * c0)\<^sup>2)"
  by (simp add: algebra_simps power2_eq_square)

lemma sum3_squares_zero:
  "(a::real)\<^sup>2 + b\<^sup>2 + c\<^sup>2 = 0 \<longleftrightarrow> a = 0 \<and> b = 0 \<and> c = 0"
proof -
  have "a\<^sup>2 + b\<^sup>2 + c\<^sup>2 = 0 \<longleftrightarrow> a\<^sup>2 + b\<^sup>2 = 0 \<and> c\<^sup>2 = 0"
    by (rule add_nonneg_eq_0_iff) simp_all
  then show ?thesis by simp
qed

lemma det3_scaled_block_zero:
  "det3 ((r0 * s1, c0 * s0, (r1 * c2 - r2 * c1) * ss),
         (r1 * s1, c1 * s0, (r2 * c0 - r0 * c2) * ss),
         (r2 * s1, c2 * s0, (r0 * c1 - r1 * c0) * ss)) = 0 \<longleftrightarrow>
   s0 = 0 \<or> s1 = 0 \<or> ss = 0 \<or> cross (r0, r1, r2) (c0, c1, c2) = (0, 0, 0)"
  unfolding det3_scaled_block by (auto simp: sum3_squares_zero)

lemma build_inverse_transform_explicit:
  "build_inverse_transform [px, py, pz] [r0, r1, r2, c0, c1, c2] [s0, s1] ss =
     bind_err (linalg_inv ((r0 * s1, c0 * s0, (r1 * c2 - r2 * c1) * ss),
                           (r1 * s1, c1 * s0, (r2 * c0 - r0 * c2) * ss),
                           (r2 * s1, c2 * s0, (r0 * c1 - r1 * c0) * ss)))
       (\<lambda>inv_rotation. Inr (affine_stack inv_rotation (neg3 (dot3 inv_rotation (px, py, pz)))))"
  using build_inverse_transform_nth [of "[px, py, pz]" "[s0, s1]" r0 r1 r2 c0 c1 c2 ss]
  by simp

subsection \<open>Products of matrices\<close>

lemma mat3_mul_adjugate3_left:
  "mat3_mul (adjugate3 m) m = scale3 (det3 m) identity3"
proof -
  obtain a b c d e f g h i where m: "m = ((a, b, c), (d, e, f), (g, h, i))"
    by (metis prod_cases3)
  show ?thesis
    unfolding m by (simp add: mat3_mul_def identity3_def algebra_simps)
qed

lemma mat3_mul_adjugate3_right:
  "mat3_mul m (adjugate3 m) = scale3 (det3 m) identity3"
proof -
  obtain a b c d e f g h i where m: "m = ((a, b, c), (d, e, f), (g, h, i))"
    by (metis prod_cases3)
  show ?thesis
    unfolding m by (simp add: mat3_mul_def identity3_def algebra_simps)
qed

lemma mat3_mul_scale3_left: "mat3_mul (scale3 k n) m = scale3 k (mat3_mul n m)"
proof -
  obtain a b c d e f g h i where m: "m = ((a, b, c), (d, e, f), (g, h, i))"
    by (metis prod_cases3)
  obtain a' b' c' d' e' f' g' h' i' where n: "n = ((a', b', c'), (d', e', f'), (g', h', i'))"
    by (metis prod_cases3)
  show ?thesis
    unfolding m n by (simp add: mat3_mul_def algebra_simps)
qed

lemma mat3_mul_scale3_right: "mat3_mul m (scale3 k n) = scale3 k (mat3_mul m n)"
proof -
  obtain a b c d e f g h i where m: "m = ((a, b, c), (d, e, f), (g, h, i))"
    by (metis prod_cases3)
  obtain a' b' c' d' e' f' g' h' i' where n: "n = ((a', b', c'), (d', e', f'), (g', h', i'))"
    by (metis prod_cases3)
  show ?thesis
    unfolding m n by (simp add: mat3_mul_def algebra_simps)
qed

lemma scale3_inverse: "d \<noteq> 0 \<Longrightarrow> scale3 (1 / d) (scale3 d identity3) = identity3"
  by (simp add: identity3_def)

lemma linalg_inv_mat3_mul:
  assumes "linalg_inv m = Inr n"
  shows "mat3_mul n m = identity3" and "mat3_mul m n = identity3"
proof -
  have d: "det3 m \<noteq> 0" and n: "n = scale3 (1 / det3 m) (adjugate3 m)"
    using assms by (auto simp: linalg_inv_def split: if_splits)
  show "mat3_mul n m = identity3"
    unfolding n mat3_mul_scale3_left mat3_mul_adjugate3_left using d by (rule scale3_inverse)
  show "mat3_mul m n = identity3"
    unfolding n mat3_mul_scale3_right mat3_mul_adjugate3_right using d by (rule scale3_inverse)
qed

lemma mat3_mul_dot3: "dot3 (mat3_mul m n) v = dot3 m (dot3 n v)"
proof -
  obtain a b c d e f g h i where m: "m = ((a, b, c), (d, e, f), (g, h, i))"
    by (metis prod_cases3)
  obtain a' b' c' d' e' f' g' h' i' where n: "n = ((a', b', c'), (d', e', f'), (g', h', i'))"
    by (metis prod_cases3)
  obtain x y z where v: "v = (x, y, z)"
    by (metis prod_cases3)
  show ?thesis
    unfolding m n v by (simp add: mat3_mul_def algebra_simps)
qed

lemma dot3_identity3: "dot3 identity3 v = v"
  by (cases v rule: prod_cases3) (simp add: identity3_def)

lemma mat4_mul_affine_stack:
  "mat4_mul (affine_stack m t) (affine_stack n u) =
     affine_stack (mat3_mul m n)
       (fst (dot3 m u) + fst t, fst (snd (dot3 m u)) + fst (snd t),
        snd (snd (dot3 m u)) + snd (snd t))"
proof -
  obtain a b c d e f g h i where m: "m = ((a, b, c), (d, e, f), (g, h, i))"
    by (metis prod_cases3)
  obtain a' b' c' d' e' f' g' h' i' where n: "n = ((a', b', c'), (d', e', f'), (g', h', i'))"
    by (metis prod_cases3)
  obtain t0 t1 t2 where t: "t = (t0, t1, t2)"
    by (metis prod_cases3)
  obtain u0 u1 u2 where u: "u = (u0, u1, u2)"
    by (metis prod_cases3)
  show ?thesis
    unfolding m n t u by (simp add: mat4_mul_def mat3_mul_def)
qed

lemma affine_stack_identity: "affine_stack identity3 (0, 0, 0) = identity4"
  by (simp add: identity3_def identity4_def)

lemma dot3_neg3_arg:
  "dot3 m (neg3 w) = neg3 (dot3 m w)"
proof -
  obtain a b c d e f g h i where m: "m = ((a, b, c), (d, e, f), (g, h, i))"
    by (metis prod_cases3)
  obtain x y z where w: "w = (x, y, z)"
    by (metis prod_cases3)
  show ?thesis
    unfolding m w by (simp add: algebra_simps)
qed

lemma neg3_cancel:
  "(fst (neg3 w) + fst w, fst (snd (neg3 w)) + fst (snd w), snd (snd (neg3 w)) + snd (snd w)) =
     (0, 0, 0)"
  "(fst w + fst (neg3 w), fst (snd w) + fst (snd (neg3 w)), snd (snd w) + snd (snd (neg3 w))) =
     (0, 0, 0)"
  by (cases w rule: prod_cases3; simp)+

lemma scale_column2_one: "scale_column 2 1 m = m"
  by (cases m rule: prod_cases3; cases "fst m"; cases "fst (snd m)"; cases "snd (snd m)"; simp)

lemma scale_column2_inverse: "ss \<noteq> 0 \<Longrightarrow> scale_column 2 (1 / ss) (scale_column 2 ss m) = m"
  by (cases m rule: prod_cases3; cases "fst m"; cases "fst (snd m)"; cases "snd (snd m)"; simp)

lemma mat3_mul_scale_column2:
  "mat3_mul n (scale_column 2 k m) = scale_column 2 k (mat3_mul n m)"
proof -
  obtain a b c d e f g h i where m: "m = ((a, b, c), (d, e, f), (g, h, i))"
    by (metis prod_cases3)
  obtain a' b' c' d' e' f' g' h' i' where n: "n = ((a', b', c'), (d', e', f'), (g', h', i'))"
    by (metis prod_cases3)
  show ?thesis
    unfolding m n by (simp add: mat3_mul_def algebra_simps)
qed

lemma affine_stack_eq_identity4:
  "affine_stack a t = identity4 \<longleftrightarrow> a = identity3 \<and> t = (0, 0, 0)"
proof -
  obtain a0 b c d e f g h i where a: "a = ((a0, b, c), (d, e, f), (g, h, i))"
    by (metis prod_cases3)
  obtain t0 t1 t2 where t: "t = (t0, t1, t2)"
    by (metis prod_cases3)
  show ?thesis
    unfolding a t by (auto simp: identity3_def identity4_def)
qed

lemma dot3_third_column:
  "dot3 (scale_column 2 ss m) (0, 0, 1) =
     (ss * fst (dot3 m (0, 0, 1)), ss * fst (snd (dot3 m (0, 0, 1))),
      ss * snd (snd (dot3 m (0, 0, 1))))"
  by (cases m rule: prod_cases3; cases "fst m"; cases "fst (snd m)"; cases "snd (snd m)"; simp)

text \<open>
  A matrix \<open>m\<close> whose third column is not zero has no right inverse among the inverses
  of its copies with the third column scaled by another factor than 1.
\<close>

lemma scaled_inverse_not_right_inverse:
  assumes n: "linalg_inv (scale_column 2 ss m) = Inr n"
    and ss: "ss \<noteq> 1"
    and w: "dot3 m (0, 0, 1) \<noteq> (0, 0, 0)"
  shows "mat3_mul m n \<noteq> identity3"
proof
  assume i: "mat3_mul m n = identity3"
  obtain w0 w1 w2 where c: "dot3 m (0, 0, 1) = (w0, w1, w2)"
    by (metis prod_cases3)
  have "dot3 n (ss * w0, ss * w1, ss * w2) = (0, 0, 1)"
    using linalg_inv_left [OF n, of "(0, 0, 1)"] by (simp add: dot3_third_column c)
  then have "dot3 m (dot3 n (ss * w0, ss * w1, ss * w2)) = (w0, w1, w2)"
    by (simp add: c)
  moreover have "dot3 m (dot3 n (ss * w0, ss * w1, ss * w2)) = (ss * w0, ss * w1, ss * w2)"
    using mat3_mul_dot3 [of m n "(ss * w0, ss * w1, ss * w2)"] by (simp add: i dot3_identity3)
  ultimately have "ss * w0 = w0" "ss * w1 = w1" "ss * w2 = w2"
    by simp_all
  then have "w0 = 0" "w1 = 0" "w2 = 0"
    using ss by simp_all
  then show False
    using w c by simp
qed

section \<open>The forward transform\<close>

text \<open>
  Claim C3. With position \<open>(10, 20, 30)\<close>, orientation \<open>(1, 0, 0, 0, 1, 0)\<close> and pixel
  spacing \<open>(2, 3)\<close>, the forward transform built by \<open>build_transform\<close> maps the pixel
  coordinate \<open>(1, 1)\<close> to the reference point \<open>(13, 22, 30)\<close>; the wrapper
  \<open>map_pixel_into_coordinate_system\<close> returns the same. For this slice a pixel
  \<open>(col, row)\<close> goes to \<open>(10 + 3 col, 20 + 2 row, 30)\<close>: the column index is scaled by
  \<open>pixel_spacing[1] = 3\<close> along X and the row index by \<open>pixel_spacing[0] = 2\<close> along Y.
\<close>

theorem scenario_forward_mapping:
  "bind_err (build_transform [10, 20, 30] [1, 0, 0, 0, 1, 0] [2, 3])
     (\<lambda>affine. apply_transform [1, 1] affine) = Inr [13, 22, 30] \<and>
   map_pixel_into_coordinate_system [1, 1] [10, 20, 30] [1, 0, 0, 0, 1, 0] [2, 3] =
     Inr [13, 22, 30] \<and>
   map_pixel_into_coordinate_system [col, row] [10, 20, 30] [1, 0, 0, 0, 1, 0] [2, 3] =
     Inr [10 + 3 * col, 20 + 2 * row, 30]"
  by (simp add: map_pixel_into_coordinate_system_def build_transform_explicit
      apply_transform_def getitem_def)

text \<open>
  Claim C6. For every position, orientation and pixel spacing (a 3-vector, a 6-vector and a
  2-vector), \<open>build_transform\<close> returns a matrix, and applying it to the pixel coordinate
  \<open>(0, 0)\<close> returns the position itself.
\<close>

theorem origin_mapping:
  "bind_err (build_transform [px, py, pz] [r0, r1, r2, c0, c1, c2] [s0, s1])
     (\<lambda>affine. apply_transform [0, 0] affine) = Inr [px, py, pz]"
  by (simp add: build_transform_explicit apply_transform_def getitem_def)

section \<open>The inverse transform\<close>

text \<open>
  In exact arithmetic the inverse matrix maps the position to \<open>(0, 0, 0)\<close>: its
  translation column is the negated product of its linear block and the position. This
  is a fact of the idealised numbers only. The program computes that product once in
  \<open>build_inverse_transform\<close> and once more, inside a product of four terms, in
  \<open>apply_inverse_transform\<close>; each \<open>numpy.dot\<close> rounds on its own and in an order of
  summation that the source does not fix, so the float result need not be exactly zero.
\<close>

lemma apply_inverse_at_position_exact:
  assumes "build_inverse_transform pos ori sp ss = Inr G"
  shows "apply_inverse_transform pos G = Inr [0, 0, 0]"
proof -
  have len: "3 \<le> length pos" "2 \<le> length sp" and "length ori = 6"
    using build_inverse_transform_shape [OF assms] by simp_all
  then obtain r0 r1 r2 c0 c1 c2 where ori: "ori = [r0, r1, r2, c0, c1, c2]"
    by (auto elim: length6E)
  from assms obtain n where
    G: "G = affine_stack n (neg3 (dot3 n (pos ! 0, pos ! 1, pos ! 2)))"
    unfolding ori build_inverse_transform_nth [OF len]
    by (auto dest!: bind_err_InrD)
  show ?thesis
    unfolding G apply_inverse_affine_stack [OF len(1)] dot3_neg3 by simp
qed

section \<open>Round trip\<close>

text \<open>
  Claim C1. Whenever \<open>build_inverse_transform\<close> returns a matrix \<open>G\<close> for a position, an
  orientation, a pixel spacing and a slice spacing, \<open>build_transform\<close> returns a matrix
  for the same position, orientation and pixel spacing, and for every pixel coordinate
  \<open>(c, r)\<close> applying \<open>G\<close> to the image of \<open>(c, r)\<close> under the forward matrix returns
  \<open>(c, r, 0)\<close>. (Over the real numbers the equation is exact.)
\<close>

theorem round_trip:
  assumes "build_inverse_transform pos ori sp ss = Inr G"
  shows "bind_err (build_transform pos ori sp)
           (\<lambda>F. bind_err (apply_transform [c, r] F) (\<lambda>q. apply_inverse_transform q G)) =
         Inr [c, r, 0]"
proof -
  have len: "3 \<le> length pos" "2 \<le> length sp" and "length ori = 6"
    using build_inverse_transform_shape [OF assms] by simp_all
  then obtain r0 r1 r2 c0 c1 c2 where ori: "ori = [r0, r1, r2, c0, c1, c2]"
    by (auto elim: length6E)
  define m where "m = ((r0 * sp ! 1, c0 * sp ! 0, r1 * c2 - r2 * c1),
                       (r1 * sp ! 1, c1 * sp ! 0, r2 * c0 - r0 * c2),
                       (r2 * sp ! 1, c2 * sp ! 0, r0 * c1 - r1 * c0))"
  define t where "t = (pos ! 0, pos ! 1, pos ! 2)"
  define v where "v = dot3 m (c, r, 0)"
  have F: "build_transform pos ori sp = Inr (affine_stack m (pos ! 0, pos ! 1, pos ! 2))"
    unfolding ori build_transform_nth [OF len] m_def by simp
  from assms obtain n where
    n: "linalg_inv (scale_column 2 ss m) = Inr n" and
    G: "G = affine_stack n (neg3 (dot3 n t))"
    unfolding ori build_inverse_transform_nth [OF len] m_def t_def
    by (auto dest!: bind_err_InrD)
  have inv_v: "dot3 n v = (c, r, 0)"
    using linalg_inv_left [OF n, of "(c, r, 0)"] by (simp add: v_def scale_column2_plane)
  have "apply_inverse_transform
          [fst v + pos ! 0, fst (snd v) + pos ! 1, snd (snd v) + pos ! 2] G =
        Inr [c, r, 0]"
    unfolding G
    by (simp add: apply_inverse_affine_stack dot3_add t_def dot3_add_neg dot3_neg3 inv_v)
  then show ?thesis
    unfolding F by (simp add: apply_transform_affine_stack v_def)
qed

theorem round_trip_witness:
  "build_inverse_transform [10, 20, 30] [1, 0, 0, 0, 1, 0] [2, 3] 2 =
     Inr ((1 / 3, 0, 0, - (10 / 3)), (0, 1 / 2, 0, - 10), (0, 0, 1 / 2, - 15), (0, 0, 0, 1)) \<and>
   bind_err (build_transform [10, 20, 30] [1, 0, 0, 0, 1, 0] [2, 3])
     (\<lambda>F. bind_err (apply_transform [5, 7] F)
        (\<lambda>q. apply_inverse_transform q
           ((1 / 3, 0, 0, - (10 / 3)), (0, 1 / 2, 0, - 10), (0, 0, 1 / 2, - 15), (0, 0, 0, 1)))) =
     Inr [5, 7, 0]"
proof -
  have h: "build_inverse_transform [10, 20, 30] [1, 0, 0, 0, 1, 0] [2, 3] 2 =
     Inr ((1 / 3, 0, 0, - (10 / 3)), (0, 1 / 2, 0, - 10), (0, 0, 1 / 2, - 15), (0, 0, 0, 1))"
    by (simp add: build_inverse_transform_def getitem_def create_rotation_matrix_def
        linalg_inv_def)
  show ?thesis
    using h round_trip [OF h, of 5 7] by simp
qed

section \<open>Singular inputs of the inverse builder\<close>

text \<open>
  Claim C5. Building an inverse transform with pixel spacing \<open>(0, 1)\<close> fails with
  \<open>LinAlgError\<close> (the specification's \<open>SingularTransform\<close>), for every position,
  orientation and slice spacing. More generally, on vectors of the right shape
  \<open>build_inverse_transform\<close> fails with \<open>LinAlgError\<close> exactly when the scaled 3 x 3
  block is singular, which is exactly when a pixel spacing or the slice spacing is zero or
  the cross product of the row and column cosines is the zero vector (the direction
  vectors are linearly dependent); it returns a matrix exactly when the block is not
  singular.
\<close>

theorem singular_inverse:
  "build_inverse_transform [px, py, pz] [r0, r1, r2, c0, c1, c2] [0, 1] ss = Inl LinAlgError \<and>
   (build_inverse_transform [px, py, pz] [r0, r1, r2, c0, c1, c2] [s0, s1] ss = Inl LinAlgError
      \<longleftrightarrow>
    det3 (scale_column 2 ss (scale_column 1 s0 (scale_column 0 s1
      (column_stack3 (r0, r1, r2) (c0, c1, c2) (cross (r0, r1, r2) (c0, c1, c2)))))) = 0) \<and>
   (det3 (scale_column 2 ss (scale_column 1 s0 (scale_column 0 s1
      (column_stack3 (r0, r1, r2) (c0, c1, c2) (cross (r0, r1, r2) (c0, c1, c2)))))) = 0
      \<longleftrightarrow>
    s0 = 0 \<or> s1 = 0 \<or> ss = 0 \<or> cross (r0, r1, r2) (c0, c1, c2) = (0, 0, 0)) \<and>
   ((\<exists>G. build_inverse_transform [px, py, pz] [r0, r1, r2, c0, c1, c2] [s0, s1] ss = Inr G)
      \<longleftrightarrow>
    det3 (scale_column 2 ss (scale_column 1 s0 (scale_column 0 s1
      (column_stack3 (r0, r1, r2) (c0, c1, c2) (cross (r0, r1, r2) (c0, c1, c2)))))) \<noteq> 0)"
proof -
  define block where "block = ((r0 * s1, c0 * s0, (r1 * c2 - r2 * c1) * ss),
         (r1 * s1, c1 * s0, (r2 * c0 - r0 * c2) * ss),
         (r2 * s1, c2 * s0, (r0 * c1 - r1 * c0) * ss))"
  have b: "scale_column 2 ss (scale_column 1 s0 (scale_column 0 s1
      (column_stack3 (r0, r1, r2) (c0, c1, c2) (cross (r0, r1, r2) (c0, c1, c2))))) = block"
    by (simp add: block_def)
  have z: "det3 block = 0 \<longleftrightarrow>
      s0 = 0 \<or> s1 = 0 \<or> ss = 0 \<or> cross (r0, r1, r2) (c0, c1, c2) = (0, 0, 0)"
    unfolding block_def by (rule det3_scaled_block_zero)
  have r: "build_inverse_transform [px, py, pz] [r0, r1, r2, c0, c1, c2] [s0, s1] ss =
      bind_err (linalg_inv block)
        (\<lambda>inv_rotation. Inr (affine_stack inv_rotation (neg3 (dot3 inv_rotation (px, py, pz)))))"
    unfolding block_def by (rule build_inverse_transform_explicit)
  have e: "build_inverse_transform [px, py, pz] [r0, r1, r2, c0, c1, c2] [s0, s1] ss =
      Inl LinAlgError \<longleftrightarrow> det3 block = 0"
    unfolding r by (simp add: linalg_inv_def)
  have g: "(\<exists>G. build_inverse_transform [px, py, pz] [r0, r1, r2, c0, c1, c2] [s0, s1] ss = Inr G)
      \<longleftrightarrow> det3 block \<noteq> 0"
    unfolding r by (simp add: linalg_inv_def del: split_paired_Ex)
  have s: "build_inverse_transform [px, py, pz] [r0, r1, r2, c0, c1, c2] [0, 1] ss =
      Inl LinAlgError"
    unfolding build_inverse_transform_explicit by (simp add: linalg_inv_def)
  show ?thesis
    unfolding b using s e z g by blast
qed

theorem singular_inverse_witness:
  "build_inverse_transform [10, 20, 30] [1, 0, 0, 0, 1, 0] [0, 1] 1 = Inl LinAlgError \<and>
   build_inverse_transform [10, 20, 30] [1, 0, 0, 1, 0, 0] [2, 3] 1 = Inl LinAlgError"
  using singular_inverse [of 10 20 30 1 0 0 0 1 0 1 0 1]
    singular_inverse [of 10 20 30 1 0 0 1 0 0 1 2 3]
  by simp

section \<open>Forward and inverse matrix\<close>

text \<open>
  Claim C2, as amended. For every position, every orientation whose row and column cosines
  are linearly independent (their cross product is not the zero vector), every pixel
  spacing with both components nonzero and every nonzero slice spacing, both builders
  return a matrix, and the two matrices are inverses of each other exactly when the slice
  spacing is 1 (the default): then the product in either order is the 4 x 4 identity
  matrix. For every other slice spacing neither product is the identity; the product of
  the inverse matrix and the forward matrix is the diagonal matrix with entries
  1, 1, 1 / slice spacing, 1.
\<close>

theorem inverse_matrices_iff_unit_slice_spacing:
  assumes "s0 \<noteq> 0" and "s1 \<noteq> 0" and "cross (r0, r1, r2) (c0, c1, c2) \<noteq> (0, 0, 0)"
    and "ss \<noteq> 0"
  shows "\<exists>F G. build_transform [px, py, pz] [r0, r1, r2, c0, c1, c2] [s0, s1] = Inr F \<and>
           build_inverse_transform [px, py, pz] [r0, r1, r2, c0, c1, c2] [s0, s1] ss = Inr G \<and>
           mat4_mul G F = ((1, 0, 0, 0), (0, 1, 0, 0), (0, 0, 1 / ss, 0), (0, 0, 0, 1)) \<and>
           (mat4_mul G F = identity4 \<longleftrightarrow> ss = 1) \<and>
           (mat4_mul F G = identity4 \<longleftrightarrow> ss = 1)"
proof -
  define m where "m = ((r0 * s1, c0 * s0, r1 * c2 - r2 * c1),
                       (r1 * s1, c1 * s0, r2 * c0 - r0 * c2),
                       (r2 * s1, c2 * s0, r0 * c1 - r1 * c0))"
  define t where "t = (px, py, pz)"
  have F: "build_transform [px, py, pz] [r0, r1, r2, c0, c1, c2] [s0, s1] =
             Inr (affine_stack m t)"
    unfolding build_transform_explicit m_def t_def by simp
  have m': "scale_column 2 ss m =
              ((r0 * s1, c0 * s0, (r1 * c2 - r2 * c1) * ss),
               (r1 * s1, c1 * s0, (r2 * c0 - r0 * c2) * ss),
               (r2 * s1, c2 * s0, (r0 * c1 - r1 * c0) * ss))"
    by (simp add: m_def)
  have "det3 (scale_column 2 ss m) \<noteq> 0"
    unfolding m' det3_scaled_block_zero using assms by simp
  then obtain n where n: "linalg_inv (scale_column 2 ss m) = Inr n"
    by (simp add: linalg_inv_def)
  have G: "build_inverse_transform [px, py, pz] [r0, r1, r2, c0, c1, c2] [s0, s1] ss =
             Inr (affine_stack n (neg3 (dot3 n t)))"
    unfolding build_inverse_transform_explicit using n by (simp add: m' t_def)
  have "mat3_mul n m = scale_column 2 (1 / ss) (mat3_mul n (scale_column 2 ss m))"
    unfolding mat3_mul_scale_column2 [symmetric] using assms(4)
    by (simp add: scale_column2_inverse)
  then have nm: "mat3_mul n m = ((1, 0, 0), (0, 1, 0), (0, 0, 1 / ss))"
    by (simp add: linalg_inv_mat3_mul [OF n] identity3_def)
  have GF: "mat4_mul (affine_stack n (neg3 (dot3 n t))) (affine_stack m t) =
              ((1, 0, 0, 0), (0, 1, 0, 0), (0, 0, 1 / ss, 0), (0, 0, 0, 1))"
    by (simp add: mat4_mul_affine_stack nm neg3_cancel)
  have GF_iff: "mat4_mul (affine_stack n (neg3 (dot3 n t))) (affine_stack m t) = identity4
                  \<longleftrightarrow> ss = 1"
    unfolding GF using assms(4) by (auto simp: identity4_def)
  have FG_iff: "mat4_mul (affine_stack m t) (affine_stack n (neg3 (dot3 n t))) = identity4
                  \<longleftrightarrow> ss = 1"
  proof
    assume "mat4_mul (affine_stack m t) (affine_stack n (neg3 (dot3 n t))) = identity4"
    then have i: "mat3_mul m n = identity3"
      by (simp add: mat4_mul_affine_stack affine_stack_eq_identity4)
    have "dot3 m (0, 0, 1) \<noteq> (0, 0, 0)"
      using assms(3) by (simp add: m_def)
    then show "ss = 1"
      using scaled_inverse_not_right_inverse [OF n] i by blast
  next
    assume "ss = 1"
    then have n1: "linalg_inv m = Inr n"
      using n by (simp add: scale_column2_one)
    have "dot3 m (dot3 n t) = t"
      using mat3_mul_dot3 [of m n t] by (simp add: linalg_inv_mat3_mul [OF n1] dot3_identity3)
    then show "mat4_mul (affine_stack m t) (affine_stack n (neg3 (dot3 n t))) = identity4"
      by (simp add: mat4_mul_affine_stack linalg_inv_mat3_mul [OF n1] dot3_neg3_arg
          neg3_cancel affine_stack_identity)
  qed
  show ?thesis
    using F G GF GF_iff FG_iff by blast
qed

theorem inverse_matrices_iff_unit_slice_spacing_witness:
  "build_transform [10, 20, 30] [1, 0, 0, 0, 1, 0] [2, 3] =
     Inr ((3, 0, 0, 10), (0, 2, 0, 20), (0, 0, 1, 30), (0, 0, 0, 1)) \<and>
   build_inverse_transform [10, 20, 30] [1, 0, 0, 0, 1, 0] [2, 3] 1 =
     Inr ((1 / 3, 0, 0, - (10 / 3)), (0, 1 / 2, 0, - 10), (0, 0, 1, - 30), (0, 0, 0, 1)) \<and>
   mat4_mul ((3, 0, 0, 10), (0, 2, 0, 20), (0, 0, 1, 30), (0, 0, 0, 1))
     ((1 / 3, 0, 0, - (10 / 3)), (0, 1 / 2, 0, - 10), (0, 0, 1, - 30), (0, 0, 0, 1)) =
     identity4 \<and>
   mat4_mul ((1 / 3, 0, 0, - (10 / 3)), (0, 1 / 2, 0, - 10), (0, 0, 1, - 30), (0, 0, 0, 1))
     ((3, 0, 0, 10), (0, 2, 0, 20), (0, 0, 1, 30), (0, 0, 0, 1)) =
     identity4 \<and>
   build_inverse_transform [10, 20, 30] [1, 0, 0, 0, 1, 0] [2, 3] 4 =
     Inr ((1 / 3, 0, 0, - (10 / 3)), (0, 1 / 2, 0, - 10), (0, 0, 1 / 4, - (15 / 2)),
          (0, 0, 0, 1)) \<and>
   mat4_mul ((1 / 3, 0, 0, - (10 / 3)), (0, 1 / 2, 0, - 10), (0, 0, 1 / 4, - (15 / 2)),
             (0, 0, 0, 1))
     ((3, 0, 0, 10), (0, 2, 0, 20), (0, 0, 1, 30), (0, 0, 0, 1)) =
     ((1, 0, 0, 0), (0, 1, 0, 0), (0, 0, 1 / 4, 0), (0, 0, 0, 1)) \<and>
   mat4_mul ((3, 0, 0, 10), (0, 2, 0, 20), (0, 0, 1, 30), (0, 0, 0, 1))
     ((1 / 3, 0, 0, - (10 / 3)), (0, 1 / 2, 0, - 10), (0, 0, 1 / 4, - (15 / 2)),
      (0, 0, 0, 1)) \<noteq> identity4"
  using inverse_matrices_iff_unit_slice_spacing
      [where ?s0.0 = 2 and ?s1.0 = 3 and ?r0.0 = 1 and ?r1.0 = 0 and ?r2.0 = 0 and ?c0.0 = 0
         and ?c1.0 = 1 and ?c2.0 = 0 and ss = 1 and px = 10 and py = 20 and pz = 30]
    inverse_matrices_iff_unit_slice_spacing
      [where ?s0.0 = 2 and ?s1.0 = 3 and ?r0.0 = 1 and ?r1.0 = 0 and ?r2.0 = 0 and ?c0.0 = 0
         and ?c1.0 = 1 and ?c2.0 = 0 and ss = 4 and px = 10 and py = 20 and pz = 30]
  by (simp add: build_transform_explicit build_inverse_transform_explicit linalg_inv_def
      identity4_def)

text \<open>
  Claim C2 as stated fails for a slice spacing other than 1: the forward matrix leaves the
  normal column unscaled while the inverse builder scales it by the slice spacing. With
  position \<open>(0, 0, 0)\<close>, the identity orientation, pixel spacing \<open>(1, 1)\<close> and slice
  spacing 2 the forward matrix is the identity, the inverse matrix has \<open>1 / 2\<close> at
  \<open>[2, 2]\<close>, and neither product is the identity.
\<close>

theorem inverse_matrices_counterexample:
  "build_transform [0, 0, 0] [1, 0, 0, 0, 1, 0] [1, 1] =
     Inr ((1, 0, 0, 0), (0, 1, 0, 0), (0, 0, 1, 0), (0, 0, 0, 1)) \<and>
   build_inverse_transform [0, 0, 0] [1, 0, 0, 0, 1, 0] [1, 1] 2 =
     Inr ((1, 0, 0, 0), (0, 1, 0, 0), (0, 0, 1 / 2, 0), (0, 0, 0, 1)) \<and>
   mat4_mul ((1, 0, 0, 0), (0, 1, 0, 0), (0, 0, 1, 0), (0, 0, 0, 1))
            ((1, 0, 0, 0), (0, 1, 0, 0), (0, 0, 1 / 2, 0), (0, 0, 0, 1)) \<noteq> identity4 \<and>
   mat4_mul ((1, 0, 0, 0), (0, 1, 0, 0), (0, 0, 1 / 2, 0), (0, 0, 0, 1))
            ((1, 0, 0, 0), (0, 1, 0, 0), (0, 0, 1, 0), (0, 0, 0, 1)) \<noteq> identity4"
  by (simp add: build_transform_explicit build_inverse_transform_explicit linalg_inv_def
      mat4_mul_def identity4_def)

section \<open>The rotation angle\<close>

text \<open>
  Claim C4. On an orientation of six components (one for which the basis \<open>R\<close> is built),
  \<open>compute_rotation\<close> fails with the planar-rotation error when component 2 or
  component 5 is not 0; otherwise it fails with the flipped-orientation error when
  \<open>R[2, 2] < 0\<close>; otherwise it returns the angle. It raises an error exactly when one of
  the two preconditions fails (the planar check comes first, and both errors are a
  \<open>ValueError\<close>, the specification's \<open>InvalidGeometry\<close>), and returns an angle exactly
  when both hold.
\<close>

theorem compute_rotation_raises:
  assumes "create_rotation_matrix ori = Inr R"
  shows "compute_rotation ori in_degrees =
           (if ori ! 2 \<noteq> 0 \<or> ori ! 5 \<noteq> 0 then Inl (ValueError NotPlanarRotation)
            else if entry3 R 2 2 < 0 then Inl (ValueError FlippedOrientation)
            else Inr (if in_degrees
                      then degrees (arctan2 (fneg (entry3 R 0 1)) (entry3 R 0 0))
                      else arctan2 (fneg (entry3 R 0 1)) (entry3 R 0 0))) \<and>
         ((\<exists>e. compute_rotation ori in_degrees = Inl e) \<longleftrightarrow>
            (ori ! 2 \<noteq> 0 \<or> ori ! 5 \<noteq> 0 \<or> entry3 R 2 2 < 0)) \<and>
         ((\<exists>angle. compute_rotation ori in_degrees = Inr angle) \<longleftrightarrow>
            (ori ! 2 = 0 \<and> ori ! 5 = 0 \<and> 0 \<le> entry3 R 2 2))"
  unfolding compute_rotation_basis [OF assms] by auto

theorem compute_rotation_raises_witness:
  "compute_rotation [1, 0, 0, 0, 0, 1] False = Inl (ValueError NotPlanarRotation) \<and>
   compute_rotation [1, 0, 1, 0, 1, 0] False = Inl (ValueError NotPlanarRotation) \<and>
   compute_rotation [0, 1, 0, 1, 0, 0] False = Inl (ValueError FlippedOrientation) \<and>
   compute_rotation [1, 0, 0, 0, 1, 0] False = Inr 0"
proof -
  have a: "create_rotation_matrix [1, 0, 0, 0, 0, 1] = Inr ((1, 0, 0), (0, 0, - 1), (0, 1, 0))"
    and b: "create_rotation_matrix [1, 0, 1, 0, 1, 0] = Inr ((1, 0, - 1), (0, 1, 0), (1, 0, 1))"
    and c: "create_rotation_matrix [0, 1, 0, 1, 0, 0] = Inr ((0, 1, 0), (1, 0, 0), (0, 0, - 1))"
    and d: "create_rotation_matrix [1, 0, 0, 0, 1, 0] = Inr ((1, 0, 0), (0, 1, 0), (0, 0, 1))"
    by (simp_all add: create_rotation_matrix_6)
  show ?thesis
    using compute_rotation_raises [OF a, of False] compute_rotation_raises [OF b, of False]
      compute_rotation_raises [OF c, of False] compute_rotation_raises [OF d, of False]
    by (simp add: arctan2_values)
qed

text \<open>
  Claim C8. For an orientation that passes the planarity and the flip check,
  \<open>compute_rotation\<close> returns \<open>numpy.arctan2(-R[0, 1], R[0, 0])\<close> over the basis \<open>R\<close>
  it builds, in degrees when requested. That angle is the principal argument of the
  complex number \<open>R[0, 0] - i R[0, 1]\<close>, except that it is \<open>-\<pi>\<close> (not \<open>\<pi>\<close>) when
  \<open>R[0, 1] = 0\<close> and \<open>R[0, 0] < 0\<close>, where the negated float zero is \<open>-0.0\<close>. For the
  identity orientation \<open>(1, 0, 0, 0, 1, 0)\<close> the result is 0 (in radians and in degrees),
  for \<open>(0, 1, 0, -1, 0, 0)\<close> in degrees it is 90, and for the half turn
  \<open>(-1, 0, 0, 0, -1, 0)\<close> it is \<open>-\<pi>\<close>, in degrees -180.
\<close>

theorem compute_rotation_angle:
  assumes "create_rotation_matrix ori = Inr R"
    and "ori ! 2 = 0" and "ori ! 5 = 0" and "0 \<le> entry3 R 2 2"
  shows "compute_rotation ori in_degrees =
           Inr (if in_degrees then degrees (arctan2 (fneg (entry3 R 0 1)) (entry3 R 0 0))
                else arctan2 (fneg (entry3 R 0 1)) (entry3 R 0 0)) \<and>
         arctan2 (fneg (entry3 R 0 1)) (entry3 R 0 0) =
           (if entry3 R 0 1 = 0 \<and> entry3 R 0 0 < 0 then - pi
            else Arg (Complex (entry3 R 0 0) (- entry3 R 0 1))) \<and>
         compute_rotation [1, 0, 0, 0, 1, 0] False = Inr 0 \<and>
         compute_rotation [1, 0, 0, 0, 1, 0] True = Inr 0 \<and>
         compute_rotation [0, 1, 0, - 1, 0, 0] True = Inr 90 \<and>
         compute_rotation [- 1, 0, 0, 0, - 1, 0] False = Inr (- pi) \<and>
         compute_rotation [- 1, 0, 0, 0, - 1, 0] True = Inr (- 180)"
proof -
  have "compute_rotation ori in_degrees =
           Inr (if in_degrees then degrees (arctan2 (fneg (entry3 R 0 1)) (entry3 R 0 0))
                else arctan2 (fneg (entry3 R 0 1)) (entry3 R 0 0))"
    unfolding compute_rotation_basis [OF assms(1)] using assms(2-4) by simp
  moreover have "arctan2 (fneg (entry3 R 0 1)) (entry3 R 0 0) =
           (if entry3 R 0 1 = 0 \<and> entry3 R 0 0 < 0 then - pi
            else Arg (Complex (entry3 R 0 0) (- entry3 R 0 1)))"
    by (rule arctan2_fneg)
  moreover have "compute_rotation [1, 0, 0, 0, 1, 0] False = Inr 0"
    by (simp add: compute_rotation_6 arctan2_values)
  moreover have "compute_rotation [1, 0, 0, 0, 1, 0] True = Inr 0"
    by (simp add: compute_rotation_6 arctan2_values degrees_def)
  moreover have "compute_rotation [0, 1, 0, - 1, 0, 0] True = Inr 90"
    by (simp add: compute_rotation_6 arctan2_values degrees_def)
  moreover have "compute_rotation [- 1, 0, 0, 0, - 1, 0] False = Inr (- pi)"
    by (simp add: compute_rotation_6 arctan2_values)
  moreover have "compute_rotation [- 1, 0, 0, 0, - 1, 0] True = Inr (- 180)"
    by (simp add: compute_rotation_6 arctan2_values degrees_def)
  ultimately show ?thesis by blast
qed

theorem compute_rotation_angle_witness:
  "create_rotation_matrix [0, 1, 0, - 1, 0, 0] = Inr ((0, - 1, 0), (1, 0, 0), (0, 0, 1)) \<and>
   compute_rotation [0, 1, 0, - 1, 0, 0] False = Inr (pi / 2) \<and>
   compute_rotation [0, 1, 0, - 1, 0, 0] True = Inr 90 \<and>
   Arg (Complex 0 1) = pi / 2 \<and>
   create_rotation_matrix [- 1, 0, 0, 0, - 1, 0] = Inr ((- 1, 0, 0), (0, - 1, 0), (0, 0, 1)) \<and>
   compute_rotation [- 1, 0, 0, 0, - 1, 0] False = Inr (- pi)"
proof -
  have h: "create_rotation_matrix [0, 1, 0, - 1, 0, 0] = Inr ((0, - 1, 0), (1, 0, 0), (0, 0, 1))"
    by (simp add: create_rotation_matrix_6)
  have k: "create_rotation_matrix [- 1, 0, 0, 0, - 1, 0] =
             Inr ((- 1, 0, 0), (0, - 1, 0), (0, 0, 1))"
    by (simp add: create_rotation_matrix_6)
  show ?thesis
    using h k compute_rotation_angle [OF h, of False] compute_rotation_angle [OF h, of True]
      compute_rotation_angle [OF k, of False]
    by (simp add: arctan2_values degrees_def)
qed

text \<open>
  Claim C10. For an orientation whose row and column cosines have z-component 0 and are
  linearly dependent (their cross product is the zero vector), the basis \<open>R\<close> has
  \<open>R[2, 2] = 0\<close> and determinant 0 (it is not a rotation), and \<open>compute_rotation\<close>
  raises no error: it returns \<open>numpy.arctan2(-R[0, 1], R[0, 0])\<close> of that basis, since
  the flip check rejects a negative \<open>R[2, 2]\<close> only.
\<close>

theorem compute_rotation_degenerate:
  assumes "create_rotation_matrix ori = Inr R"
    and "ori ! 2 = 0" and "ori ! 5 = 0"
    and "cross (ori ! 0, ori ! 1, ori ! 2) (ori ! 3, ori ! 4, ori ! 5) = (0, 0, 0)"
  shows "entry3 R 2 2 = 0 \<and> det3 R = 0 \<and>
         compute_rotation ori in_degrees =
           Inr (if in_degrees then degrees (arctan2 (fneg (entry3 R 0 1)) (entry3 R 0 0))
                else arctan2 (fneg (entry3 R 0 1)) (entry3 R 0 0))"
proof -
  have R: "R = ((ori ! 0, ori ! 3, ori ! 1 * ori ! 5 - ori ! 2 * ori ! 4),
                (ori ! 1, ori ! 4, ori ! 2 * ori ! 3 - ori ! 0 * ori ! 5),
                (ori ! 2, ori ! 5, ori ! 0 * ori ! 4 - ori ! 1 * ori ! 3))"
    using create_rotation_matrix_Inr [OF assms(1)] by simp
  have z: "entry3 R 2 2 = 0"
    using assms(2-4) by (simp add: R)
  have d: "det3 R = 0"
    using assms(2-4) by (simp add: R)
  show ?thesis
    unfolding compute_rotation_basis [OF assms(1)] using assms(2,3) z d by simp
qed

theorem compute_rotation_degenerate_witness:
  "create_rotation_matrix [1, 0, 0, 1, 0, 0] = Inr ((1, 1, 0), (0, 0, 0), (0, 0, 0)) \<and>
   cross (1, 0, 0) (1, 0, 0) = (0, 0, 0) \<and>
   compute_rotation [1, 0, 0, 1, 0, 0] False = Inr (- (pi / 4)) \<and>
   compute_rotation [1, 0, 0, 1, 0, 0] True = Inr (- 45)"
proof -
  have h: "create_rotation_matrix [1, 0, 0, 1, 0, 0] = Inr ((1, 1, 0), (0, 0, 0), (0, 0, 0))"
    by (simp add: create_rotation_matrix_6)
  have c: "cross ([1, 0, 0, 1, 0, 0] ! 0, [1, 0, 0, 1, 0, 0] ! 1, [1, 0, 0, 1, 0, 0] ! 2)
             ([1, 0, 0, 1, 0, 0] ! 3, [1, 0, 0, 1, 0, 0] ! 4, [1, 0, 0, 1, 0, 0] ! 5)
           = (0, 0, 0)"
    by simp
  show ?thesis
    using h compute_rotation_degenerate [OF h _ _ c, of False]
      compute_rotation_degenerate [OF h _ _ c, of True]
    by (simp add: arctan2_values degrees_def)
qed

section \<open>The mapper\<close>

text \<open>
  Claim C9 as stated fails: the source has two apply functions, not one that takes a
  point of either length. \<open>apply_transform\<close> ignores a third component of its point:
  on the identity matrix the point \<open>(1, 1, 5)\<close> goes to \<open>(1, 1, 0)\<close>, as \<open>(1, 1, 0)\<close>
  does, where the specification's apply gives \<open>(1, 1, 5)\<close>. And
  \<open>apply_inverse_transform\<close> fails with \<open>IndexError\<close> on a 2-vector.
\<close>

theorem apply_third_component_counterexample:
  "spec_apply [1, 1, 5] identity4 = Some [1, 1, 5] \<and>
   apply_transform [1, 1, 5] identity4 = Inr [1, 1, 0] \<and>
   apply_transform [1, 1, 5] identity4 = apply_transform [1, 1, 0] identity4 \<and>
   apply_inverse_transform [1, 1] identity4 = Inl IndexError"
  by (simp add: identity4_def apply_transform_def apply_inverse_transform_def getitem_def)

text \<open>
  Claim C9, as amended. \<open>apply_transform\<close> (pixel to reference) takes the first two
  components of its point, pads them with \<open>z = 0\<close> and \<open>w = 1\<close>, multiplies the matrix
  by the padded point and returns the first three components, as the specification's
  apply does on a 2-vector; further components of the point are ignored.
  \<open>apply_inverse_transform\<close> (reference to pixel) pads a 3-vector with \<open>w = 1\<close>, its
  third component kept, multiplies and returns the first three components, as the
  specification's apply does on a 3-vector; on a 2-vector it fails with \<open>IndexError\<close>.
\<close>

theorem apply_point_shapes:
  "apply_transform [c, r] affine = Inr (first3 (dot4 affine (c, r, 0, 1))) \<and>
   spec_apply [c, r] affine = Some (first3 (dot4 affine (c, r, 0, 1))) \<and>
   apply_transform (c # r # rest) affine = apply_transform [c, r] affine \<and>
   apply_inverse_transform [x, y, z] affine = Inr (first3 (dot4 affine (x, y, z, 1))) \<and>
   spec_apply [x, y, z] affine = Some (first3 (dot4 affine (x, y, z, 1))) \<and>
   apply_inverse_transform [c, r] affine = Inl IndexError"
  by (simp add: apply_transform_def apply_inverse_transform_def getitem_def)

end
